theory Spec2Isabelle
  imports Main "HOL-Library.Word"
begin

section \<open>Data model\<close>

text \<open>
  The C sources work on \<open>uint8_t\<close> samples and \<open>uint32_t\<close> counters; both are modelled as
  machine words, so that \<open>+\<close> wraps exactly as the C increment does.
\<close>

type_synonym u8 = "8 word"
type_synonym u32 = "32 word"

text \<open>
  The user-supplied function pointers (\<open>time_ref\<close>, \<open>on_edge\<close>) are opaque C functions that
  may have side effects of their own (for instance resetting a timer). They are modelled
  as functions over an external world \<open>'w\<close> that is threaded through every call: a call of
  \<open>time_ref\<close> maps the world to the returned byte and the next world, a call of \<open>on_edge\<close>
  maps the classification and the world to the next world. A null function pointer is
  \<open>None\<close>. The world is disjoint from the instance the library function works on: the
  callbacks do not write to the fields of that instance.

  A nullable pointer to an instance (\<open>Debounce *d\<close>, \<open>EdgeDetector *det\<close>) is an
  \<open>option\<close>: \<open>None\<close> is the null pointer, \<open>Some s\<close> points to the struct value \<open>s\<close>. Every
  function that writes through the pointer returns the pointee after the call.
\<close>

subsection \<open>Debounce (\<open>debounce.h\<close>, both versions declare the same struct)\<close>

record 'w Debounce =
  prev_input :: u8
  stable_output :: u8
  time_ref :: "('w \<Rightarrow> u8 \<times> 'w) option"

subsection \<open>Edge detector, version 1.0 (\<open>edge_detector.h\<close> with counters and callback)\<close>

datatype EdgeType = EDGE_NONE | EDGE_RISING | EDGE_FALLING | EDGE_BOTH

record 'w EdgeDetector =
  prev :: u8
  rise_count :: u32
  fall_count :: u32
  on_edge :: "(EdgeType \<Rightarrow> 'w \<Rightarrow> 'w) option"

subsection \<open>Edge detector, first iteration (struct with the single field \<open>prev\<close>)\<close>

record EdgeDetector0 =
  prev0 :: u8

section \<open>Debounce, version 1.1\<close>

text \<open>
  The C expression \<open>(input != 0)\<close> has the \<open>int\<close> value 0 or 1; stored into a
  \<open>uint8_t\<close> it is written here as \<open>if input \<noteq> 0 then 1 else 0\<close>.
\<close>

definition debounce_init ::
  "'w Debounce option \<Rightarrow> ('w \<Rightarrow> u8 \<times> 'w) option \<Rightarrow> u8 \<Rightarrow> 'w Debounce option" where
  "debounce_init d tr initial_input =
     (case d of
        None \<Rightarrow> None
      | Some s \<Rightarrow>
          (let s1 = s\<lparr>prev_input := (if initial_input \<noteq> 0 then 1 else 0)\<rparr>;
               s2 = s1\<lparr>stable_output := prev_input s1\<rparr>;
               s3 = s2\<lparr>time_ref := tr\<rparr>
           in Some s3))"

text \<open>\<open>_debounce_time_ready\<close>: a null \<open>time_ref\<close> answers 1 without any call.\<close>

definition debounce_time_ready :: "'w Debounce \<Rightarrow> 'w \<Rightarrow> u8 \<times> 'w" where
  "debounce_time_ready s w =
     (case time_ref s of
        None \<Rightarrow> (1, w)
      | Some f \<Rightarrow> f w)"

definition debounce_update ::
  "'w Debounce option \<Rightarrow> u8 \<Rightarrow> 'w \<Rightarrow> u8 \<times> 'w Debounce option \<times> 'w" where
  "debounce_update d input w =
     (case d of
        None \<Rightarrow> (0, None, w)
      | Some s \<Rightarrow>
          (let inp = (if input \<noteq> 0 then 1 else 0) in
           if inp \<noteq> prev_input s then
             (let s1 = s\<lparr>prev_input := inp\<rparr>;
                  w1 = snd (debounce_time_ready s1 w)
              in (stable_output s1, Some s1, w1))
           else
             (case debounce_time_ready s w of
                (r, w1) \<Rightarrow>
                  (let s1 = (if r \<noteq> 0 then s\<lparr>stable_output := inp\<rparr> else s)
                   in (stable_output s1, Some s1, w1)))))"

section \<open>Debounce, version 1.0\<close>

definition debounce_init_v10 ::
  "'w Debounce option \<Rightarrow> ('w \<Rightarrow> u8 \<times> 'w) option \<Rightarrow> 'w Debounce option" where
  "debounce_init_v10 d tr =
     (case d of
        None \<Rightarrow> None
      | Some s \<Rightarrow> Some (s\<lparr>prev_input := 0, stable_output := 0, time_ref := tr\<rparr>))"

text \<open>
  Version 1.0 tests the pointer inline: \<open>if (d->time_ref) d->time_ref();\<close> on the changed
  branch and \<open>if (d->time_ref && d->time_ref())\<close> on the unchanged branch, where \<open>&&\<close>
  does not call the function when the pointer is null.
\<close>

definition debounce_update_v10 ::
  "'w Debounce option \<Rightarrow> u8 \<Rightarrow> 'w \<Rightarrow> u8 \<times> 'w Debounce option \<times> 'w" where
  "debounce_update_v10 d input w =
     (case d of
        None \<Rightarrow> (0, None, w)
      | Some s \<Rightarrow>
          (let inp = (if input \<noteq> 0 then 1 else 0) in
           if inp \<noteq> prev_input s then
             (let s1 = s\<lparr>prev_input := inp\<rparr>;
                  w1 = (case time_ref s1 of None \<Rightarrow> w | Some f \<Rightarrow> snd (f w))
              in (stable_output s1, Some s1, w1))
           else
             (case time_ref s of
                None \<Rightarrow> (stable_output s, Some s, w)
              | Some f \<Rightarrow>
                  (case f w of
                     (r, w1) \<Rightarrow>
                       (let s1 = (if r \<noteq> 0 then s\<lparr>stable_output := inp\<rparr> else s)
                        in (stable_output s1, Some s1, w1))))))"

section \<open>Edge detector, version 1.0\<close>

definition norm01 :: "u8 \<Rightarrow> u8" where
  "norm01 x = (if x \<noteq> 0 then 1 else 0)"

definition edge_init :: "'w EdgeDetector option \<Rightarrow> u8 \<Rightarrow> 'w EdgeDetector option" where
  "edge_init det initial_state =
     (case det of
        None \<Rightarrow> None
      | Some s \<Rightarrow>
          Some (s\<lparr>prev := norm01 initial_state, rise_count := 0, fall_count := 0,
                  on_edge := None\<rparr>))"

definition edge_invoke_callback :: "'w EdgeDetector option \<Rightarrow> EdgeType \<Rightarrow> 'w \<Rightarrow> 'w" where
  "edge_invoke_callback det ty w =
     (case det of
        None \<Rightarrow> w
      | Some s \<Rightarrow> (case on_edge s of None \<Rightarrow> w | Some f \<Rightarrow> f ty w))"

definition edge_update ::
  "'w EdgeDetector option \<Rightarrow> u8 \<Rightarrow> 'w \<Rightarrow> EdgeType \<times> 'w EdgeDetector option \<times> 'w" where
  "edge_update det input w =
     (case det of
        None \<Rightarrow> (EDGE_NONE, None, w)
      | Some s \<Rightarrow>
          (let current = norm01 input in
           if prev s = 0 \<and> current = 1 then
             (let s1 = s\<lparr>rise_count := rise_count s + 1\<rparr>;
                  w1 = edge_invoke_callback (Some s1) EDGE_RISING w
              in (EDGE_RISING, Some (s1\<lparr>prev := current\<rparr>), w1))
           else if prev s = 1 \<and> current = 0 then
             (let s1 = s\<lparr>fall_count := fall_count s + 1\<rparr>;
                  w1 = edge_invoke_callback (Some s1) EDGE_FALLING w
              in (EDGE_FALLING, Some (s1\<lparr>prev := current\<rparr>), w1))
           else (EDGE_NONE, Some (s\<lparr>prev := current\<rparr>), w)))"

definition edge_both ::
  "'w EdgeDetector option \<Rightarrow> u8 \<Rightarrow> 'w \<Rightarrow> u8 \<times> 'w EdgeDetector option \<times> 'w" where
  "edge_both det input w =
     (case det of
        None \<Rightarrow> (0, None, w)
      | Some s \<Rightarrow>
          (case edge_update det input w of
             (ty, det1, w1) \<Rightarrow> ((if ty \<noteq> EDGE_NONE then 1 else 0), det1, w1)))"

definition edge_reset :: "'w EdgeDetector option \<Rightarrow> 'w EdgeDetector option" where
  "edge_reset det =
     (case det of
        None \<Rightarrow> None
      | Some s \<Rightarrow> Some (s\<lparr>rise_count := 0, fall_count := 0\<rparr>))"

text \<open>The accessors take a pointer to a \<open>const\<close> struct: they return a value and write nothing.\<close>

definition edge_get_rise_count :: "'w EdgeDetector option \<Rightarrow> u32" where
  "edge_get_rise_count det = (case det of None \<Rightarrow> 0 | Some s \<Rightarrow> rise_count s)"

definition edge_get_fall_count :: "'w EdgeDetector option \<Rightarrow> u32" where
  "edge_get_fall_count det = (case det of None \<Rightarrow> 0 | Some s \<Rightarrow> fall_count s)"

section \<open>Edge detector, first iteration\<close>

text \<open>
  A C comparison or \<open>&&\<close> yields the \<open>int\<close> 0 or 1, which the cast to \<open>uint8_t\<close> keeps.
\<close>

definition c_bool :: "bool \<Rightarrow> u8" where
  "c_bool b = (if b then 1 else 0)"

definition edge_init0 :: "EdgeDetector0 option \<Rightarrow> u8 \<Rightarrow> EdgeDetector0 option" where
  "edge_init0 det initial_state =
     (case det of
        None \<Rightarrow> None
      | Some s \<Rightarrow> Some (s\<lparr>prev0 := norm01 initial_state\<rparr>))"

definition edge_rise :: "EdgeDetector0 option \<Rightarrow> u8 \<Rightarrow> u8 \<times> EdgeDetector0 option" where
  "edge_rise det inp =
     (case det of
        None \<Rightarrow> (0, None)
      | Some s \<Rightarrow>
          (let current = norm01 inp;
               detected = c_bool (current \<noteq> 0 \<and> prev0 s = 0)
           in (detected, Some (s\<lparr>prev0 := current\<rparr>))))"

definition edge_fall :: "EdgeDetector0 option \<Rightarrow> u8 \<Rightarrow> u8 \<times> EdgeDetector0 option" where
  "edge_fall det inp =
     (case det of
        None \<Rightarrow> (0, None)
      | Some s \<Rightarrow>
          (let current = norm01 inp;
               detected = c_bool (prev0 s = 1 \<and> current = 0)
           in (detected, Some (s\<lparr>prev0 := current\<rparr>))))"

definition edge_both0 :: "EdgeDetector0 option \<Rightarrow> u8 \<Rightarrow> u8 \<times> EdgeDetector0 option" where
  "edge_both0 det inp =
     (case det of
        None \<Rightarrow> (0, None)
      | Some s \<Rightarrow>
          (let current = norm01 inp;
               detected = c_bool (current \<noteq> prev0 s)
           in (detected, Some (s\<lparr>prev0 := current\<rparr>))))"

section \<open>The caller's sampling loop\<close>

text \<open>
  The library is driven by a polling loop of the caller that passes one raw sample per
  call. The following functions run such a loop over a list of samples and collect the
  returned values, the final pointee and the final world.
\<close>

fun debounce_feed ::
  "'w Debounce option \<Rightarrow> u8 list \<Rightarrow> 'w \<Rightarrow> u8 list \<times> 'w Debounce option \<times> 'w" where
  "debounce_feed d [] w = ([], d, w)"
| "debounce_feed d (x # xs) w =
     (case debounce_update d x w of
        (r, d1, w1) \<Rightarrow>
          (case debounce_feed d1 xs w1 of
             (rs, d2, w2) \<Rightarrow> (r # rs, d2, w2)))"

fun debounce_feed_v10 ::
  "'w Debounce option \<Rightarrow> u8 list \<Rightarrow> 'w \<Rightarrow> u8 list \<times> 'w Debounce option \<times> 'w" where
  "debounce_feed_v10 d [] w = ([], d, w)"
| "debounce_feed_v10 d (x # xs) w =
     (case debounce_update_v10 d x w of
        (r, d1, w1) \<Rightarrow>
          (case debounce_feed_v10 d1 xs w1 of
             (rs, d2, w2) \<Rightarrow> (r # rs, d2, w2)))"

fun edge_feed ::
  "'w EdgeDetector option \<Rightarrow> u8 list \<Rightarrow> 'w \<Rightarrow> EdgeType list \<times> 'w EdgeDetector option \<times> 'w" where
  "edge_feed det [] w = ([], det, w)"
| "edge_feed det (x # xs) w =
     (case edge_update det x w of
        (r, det1, w1) \<Rightarrow>
          (case edge_feed det1 xs w1 of
             (rs, det2, w2) \<Rightarrow> (r # rs, det2, w2)))"

section \<open>Predicates on the timing function and the latency specification\<close>

text \<open>
  A timing function "always returns true" when every call returns a nonzero byte; an
  absent one counts as ready in version 1.1 (\<open>debounce_time_ready\<close> answers 1).
\<close>

definition always_ready :: "('w \<Rightarrow> u8 \<times> 'w) option \<Rightarrow> bool" where
  "always_ready tr = (case tr of None \<Rightarrow> True | Some f \<Rightarrow> (\<forall>w. fst (f w) \<noteq> 0))"

text \<open>
  In version 1.0 the stable output is written only under \<open>d->time_ref && d->time_ref()\<close>:
  a null pointer and a function that always returns 0 both keep the guard false.
\<close>

definition never_ready_v10 :: "('w \<Rightarrow> u8 \<times> 'w) option \<Rightarrow> bool" where
  "never_ready_v10 tr = (case tr of None \<Rightarrow> True | Some f \<Rightarrow> (\<forall>w. fst (f w) = 0))"

text \<open>
  The specification's description of the always-ready filter, written from its words
  and not from the code: the output follows the normalised raw input with one call of
  latency. A sample that differs from the previous one leaves the output as it was;
  a sample that repeats the previous one becomes the output.
\<close>

fun one_call_latency :: "u8 \<Rightarrow> u8 \<Rightarrow> u8 list \<Rightarrow> u8 list" where
  "one_call_latency last_raw out [] = []"
| "one_call_latency last_raw out (x # xs) =
     (let current = (if x \<noteq> 0 then 1 else 0);
          out' = (if current = last_raw then current else out)
      in out' # one_call_latency current out' xs)"

section \<open>Debounce: single steps and runs\<close>

lemma debounce_update_change:
  "(if input \<noteq> 0 then 1 else 0) \<noteq> prev_input s \<Longrightarrow>
   debounce_update (Some s) input w =
     (stable_output s, Some (s\<lparr>prev_input := (if input \<noteq> 0 then 1 else 0)\<rparr>),
      (case time_ref s of None \<Rightarrow> w | Some f \<Rightarrow> snd (f w)))"
  by (simp add: debounce_update_def debounce_time_ready_def Let_def split: option.splits)

lemma debounce_update_v10_change:
  "(if input \<noteq> 0 then 1 else 0) \<noteq> prev_input s \<Longrightarrow>
   debounce_update_v10 (Some s) input w =
     (stable_output s, Some (s\<lparr>prev_input := (if input \<noteq> 0 then 1 else 0)\<rparr>),
      (case time_ref s of None \<Rightarrow> w | Some f \<Rightarrow> snd (f w)))"
  by (simp add: debounce_update_v10_def Let_def split: option.splits)

lemma debounce_update_same_ready:
  assumes same: "(if input \<noteq> 0 then 1 else 0) = prev_input s"
    and rdy: "always_ready (time_ref s)"
  shows "debounce_update (Some s) input w =
     (prev_input s, Some (s\<lparr>stable_output := prev_input s\<rparr>),
      (case time_ref s of None \<Rightarrow> w | Some f \<Rightarrow> snd (f w)))"
proof (cases "time_ref s")
  case None
  with same show ?thesis
    by (simp add: debounce_update_def debounce_time_ready_def Let_def)
next
  case (Some f)
  with rdy have "fst (f w) \<noteq> 0"
    by (simp add: always_ready_def)
  with same Some show ?thesis
    by (cases "f w") (simp add: debounce_update_def debounce_time_ready_def Let_def)
qed

lemma debounce_update_v10_same_ready:
  assumes same: "(if input \<noteq> 0 then 1 else 0) = prev_input s"
    and tr: "time_ref s = Some f" and rdy: "\<forall>w. fst (f w) \<noteq> 0"
  shows "debounce_update_v10 (Some s) input w =
     (prev_input s, Some (s\<lparr>stable_output := prev_input s\<rparr>), snd (f w))"
proof -
  from rdy have "fst (f w) \<noteq> 0" by simp
  with same tr show ?thesis
    by (cases "f w") (simp add: debounce_update_v10_def Let_def)
qed

lemma fst_debounce_feed_Cons:
  "fst (debounce_feed d (x # xs) w) =
     fst (debounce_update d x w) #
     fst (debounce_feed (fst (snd (debounce_update d x w))) xs (snd (snd (debounce_update d x w))))"
  by (simp split: prod.splits)

lemma fst_debounce_feed_v10_Cons:
  "fst (debounce_feed_v10 d (x # xs) w) =
     fst (debounce_update_v10 d x w) #
     fst (debounce_feed_v10 (fst (snd (debounce_update_v10 d x w))) xs
       (snd (snd (debounce_update_v10 d x w))))"
  by (simp split: prod.splits)

lemma debounce_feed_ready:
  "always_ready (time_ref s) \<Longrightarrow>
   fst (debounce_feed (Some s) xs w) = one_call_latency (prev_input s) (stable_output s) xs"
proof (induction xs arbitrary: s w)
  case Nil
  then show ?case by simp
next
  case (Cons x xs)
  show ?case
  proof (cases "(if x \<noteq> 0 then 1 else 0) = prev_input s")
    case True
    from Cons.prems have r: "always_ready (time_ref (s\<lparr>stable_output := prev_input s\<rparr>))" by simp
    show ?thesis
      using True Cons.IH [OF r]
      by (simp only: fst_debounce_feed_Cons debounce_update_same_ready [OF True Cons.prems])
        (simp add: Let_def)
  next
    case False
    from Cons.prems have r: "always_ready (time_ref (s\<lparr>prev_input := (if x \<noteq> 0 then 1 else 0)\<rparr>))" by simp
    show ?thesis
      using False Cons.IH [OF r]
      by (simp only: fst_debounce_feed_Cons debounce_update_change [OF False])
        (simp add: Let_def)
  qed
qed

lemma debounce_feed_v10_ready:
  "time_ref s = Some f \<Longrightarrow> \<forall>w. fst (f w) \<noteq> 0 \<Longrightarrow>
   fst (debounce_feed_v10 (Some s) xs w) = one_call_latency (prev_input s) (stable_output s) xs"
proof (induction xs arbitrary: s w)
  case Nil
  then show ?case by simp
next
  case (Cons x xs)
  show ?case
  proof (cases "(if x \<noteq> 0 then 1 else 0) = prev_input s")
    case True
    from Cons.prems have r: "time_ref (s\<lparr>stable_output := prev_input s\<rparr>) = Some f" by simp
    show ?thesis
      using True Cons.IH [OF r Cons.prems(2)]
      by (simp only: fst_debounce_feed_v10_Cons debounce_update_v10_same_ready [OF True Cons.prems])
        (simp add: Let_def)
  next
    case False
    from Cons.prems have r: "time_ref (s\<lparr>prev_input := (if x \<noteq> 0 then 1 else 0)\<rparr>) = Some f" by simp
    show ?thesis
      using False Cons.IH [OF r Cons.prems(2)]
      by (simp only: fst_debounce_feed_v10_Cons debounce_update_v10_change [OF False])
        (simp add: Let_def)
  qed
qed

lemma debounce_update_never:
  assumes tr: "time_ref s = Some f" and nr: "\<forall>w. fst (f w) = 0"
  shows "\<exists>s' w'. debounce_update (Some s) x w = (stable_output s, Some s', w')
           \<and> stable_output s' = stable_output s \<and> time_ref s' = Some f"
proof -
  from nr have "fst (f w) = 0" by simp
  with tr show ?thesis
    by (cases "f w") (simp add: debounce_update_def debounce_time_ready_def Let_def)
qed

lemma debounce_update_v10_never:
  assumes nr: "never_ready_v10 (time_ref s)"
  shows "\<exists>s' w'. debounce_update_v10 (Some s) x w = (stable_output s, Some s', w')
           \<and> stable_output s' = stable_output s \<and> time_ref s' = time_ref s"
proof (cases "time_ref s")
  case None
  then show ?thesis
    by (simp add: debounce_update_v10_def Let_def)
next
  case (Some f)
  with nr have "fst (f w) = 0" by (simp add: never_ready_v10_def)
  with Some show ?thesis
    by (cases "f w") (simp add: debounce_update_v10_def Let_def)
qed

lemma debounce_feed_never:
  "time_ref s = Some f \<Longrightarrow> \<forall>w. fst (f w) = 0 \<Longrightarrow>
   \<exists>s' w'. debounce_feed (Some s) xs w = (replicate (length xs) (stable_output s), Some s', w')
          \<and> stable_output s' = stable_output s"
proof (induction xs arbitrary: s w)
  case Nil
  then show ?case by simp
next
  case (Cons x xs)
  from debounce_update_never [OF Cons.prems, of x w]
  obtain s1 w1 where step: "debounce_update (Some s) x w = (stable_output s, Some s1, w1)"
    and keep: "stable_output s1 = stable_output s" and tr1: "time_ref s1 = Some f"
    by blast
  from Cons.IH [OF tr1 Cons.prems(2), of w1] keep
  obtain s2 w2 where
    "debounce_feed (Some s1) xs w1 = (replicate (length xs) (stable_output s), Some s2, w2)"
    and "stable_output s2 = stable_output s"
    by auto
  with step show ?case by simp
qed

lemma debounce_feed_v10_never:
  "never_ready_v10 (time_ref s) \<Longrightarrow>
   \<exists>s' w'. debounce_feed_v10 (Some s) xs w =
            (replicate (length xs) (stable_output s), Some s', w')
          \<and> stable_output s' = stable_output s"
proof (induction xs arbitrary: s w)
  case Nil
  then show ?case by simp
next
  case (Cons x xs)
  from debounce_update_v10_never [OF Cons.prems, of x w]
  obtain s1 w1 where step: "debounce_update_v10 (Some s) x w = (stable_output s, Some s1, w1)"
    and keep: "stable_output s1 = stable_output s" and tr1: "time_ref s1 = time_ref s"
    by blast
  from tr1 Cons.prems have "never_ready_v10 (time_ref s1)" by simp
  from Cons.IH [OF this, of w1] keep
  obtain s2 w2 where
    "debounce_feed_v10 (Some s1) xs w1 = (replicate (length xs) (stable_output s), Some s2, w2)"
    and "stable_output s2 = stable_output s"
    by auto
  with step show ?case by simp
qed

section \<open>Edge detector: a concrete run\<close>

text \<open>
  C3. Starting from \<open>edge_init\<close> with initial state 0, the sample sequence
  0,0,1,1,0,1 given to \<open>edge_update\<close> is classified as
  None, None, Rising, None, Falling, Rising, and afterwards \<open>rise_count\<close> is 2 and
  \<open>fall_count\<close> is 1 (read through the accessors). This holds whatever the struct held
  before the initialisation.
\<close>

theorem edge_sequence_classification:
  "edge_feed (edge_init (Some s) 0) [0, 0, 1, 1, 0, 1] w =
     ([EDGE_NONE, EDGE_NONE, EDGE_RISING, EDGE_NONE, EDGE_FALLING, EDGE_RISING],
      Some (s\<lparr>prev := 1, rise_count := 2, fall_count := 1, on_edge := None\<rparr>), w)
   \<and> edge_get_rise_count (fst (snd (edge_feed (edge_init (Some s) 0) [0, 0, 1, 1, 0, 1] w))) = 2
   \<and> edge_get_fall_count (fst (snd (edge_feed (edge_init (Some s) 0) [0, 0, 1, 1, 0, 1] w))) = 1"
  by (simp add: edge_init_def edge_update_def edge_invoke_callback_def norm01_def
      edge_get_rise_count_def edge_get_fall_count_def)

section \<open>Debounce: the raw-change step\<close>

text \<open>
  C1. For every debounce state and every raw sample whose normalised value differs from
  the stored \<open>prev_input\<close>, \<open>debounce_update\<close> (in both versions) stores the normalised
  sample into \<open>prev_input\<close>, returns the previous \<open>stable_output\<close> and leaves that field
  as it was, and calls \<open>time_ref\<close>, when it is present, exactly once: the world after the
  call is the world after one application of the function, and the byte it returned
  occurs neither in the returned value nor in the new state. With a null \<open>time_ref\<close> the
  world is untouched.
\<close>

theorem debounce_update_raw_change:
  assumes "(if input \<noteq> 0 then 1 else 0) \<noteq> prev_input s"
  shows "debounce_update (Some s) input w =
           (stable_output s, Some (s\<lparr>prev_input := (if input \<noteq> 0 then 1 else 0)\<rparr>),
            (case time_ref s of None \<Rightarrow> w | Some f \<Rightarrow> snd (f w)))
       \<and> debounce_update_v10 (Some s) input w =
           (stable_output s, Some (s\<lparr>prev_input := (if input \<noteq> 0 then 1 else 0)\<rparr>),
            (case time_ref s of None \<Rightarrow> w | Some f \<Rightarrow> snd (f w)))"
  using assms
  by (simp add: debounce_update_def debounce_update_v10_def debounce_time_ready_def Let_def
      split: option.splits)

text \<open>
  The witness uses a world that counts the calls of the timing function: one call is
  made (the count goes from 0 to 1), and although the function answers 1 the stable
  output stays 0.
\<close>

theorem debounce_update_raw_change_witness:
  "(if (5::u8) \<noteq> 0 then 1 else 0) \<noteq>
     prev_input \<lparr>prev_input = 0, stable_output = 0, time_ref = Some (\<lambda>n::nat. (1, Suc n))\<rparr>
   \<and> debounce_update
       (Some \<lparr>prev_input = 0, stable_output = 0, time_ref = Some (\<lambda>n::nat. (1, Suc n))\<rparr>) 5 0 =
       (0, Some \<lparr>prev_input = 1, stable_output = 0, time_ref = Some (\<lambda>n::nat. (1, Suc n))\<rparr>,
        Suc 0)
   \<and> debounce_update_v10
       (Some \<lparr>prev_input = 0, stable_output = 0, time_ref = Some (\<lambda>n::nat. (1, Suc n))\<rparr>) 5 0 =
       (0, Some \<lparr>prev_input = 1, stable_output = 0, time_ref = Some (\<lambda>n::nat. (1, Suc n))\<rparr>,
        Suc 0)"
  using debounce_update_raw_change
    [of 5 "\<lparr>prev_input = 0, stable_output = 0, time_ref = Some (\<lambda>n::nat. (1, Suc n))\<rparr>" 0]
  by simp

section \<open>Debounce: one call of latency\<close>

text \<open>
  C2. With an absent timing function, and likewise with one that always returns true,
  the outputs of version 1.1 over any sample sequence are those of \<open>one_call_latency\<close>:
  the output follows the normalised raw input one call after a change, so the second
  of two calls with the same sample always returns that sample normalised. Concretely,
  after \<open>debounce_init\<close> with initial input 0 and a null \<open>time_ref\<close>, the updates
  1, 1, 0, 0 return 0, 1, 1, 0. Version 1.0 meets the same latency description when the
  timing function is present and always returns true.
\<close>

theorem debounce_one_call_latency:
  "(always_ready (time_ref s) \<longrightarrow>
      fst (debounce_feed (Some s) xs w) =
        one_call_latency (prev_input s) (stable_output s) xs)
   \<and> (always_ready (time_ref s) \<longrightarrow>
      fst (debounce_feed (Some s) [x, x] w) =
        [if (if x \<noteq> 0 then 1 else 0) = prev_input s then prev_input s else stable_output s,
         if x \<noteq> 0 then 1 else 0])
   \<and> fst (debounce_feed (debounce_init (Some s0) None 0) [1, 1, 0, 0] w) = [0, 1, 1, 0]
   \<and> (time_ref s = Some f \<and> (\<forall>v. fst (f v) \<noteq> 0) \<longrightarrow>
      fst (debounce_feed_v10 (Some s) xs w) =
        one_call_latency (prev_input s) (stable_output s) xs)"
proof -
  have twice: "always_ready (time_ref s) \<longrightarrow>
      fst (debounce_feed (Some s) [x, x] w) =
        [if (if x \<noteq> 0 then 1 else 0) = prev_input s then prev_input s else stable_output s,
         if x \<noteq> 0 then 1 else 0]"
    using debounce_feed_ready [of s "[x, x]" w] by (simp add: Let_def)
  have concrete: "fst (debounce_feed (debounce_init (Some s0) None 0) [1, 1, 0, 0] w) = [0, 1, 1, 0]"
    by (simp add: debounce_init_def debounce_update_def debounce_time_ready_def Let_def)
  show ?thesis
    using debounce_feed_ready [of s xs w] debounce_feed_v10_ready [of s f xs w] concrete twice
    by blast
qed

theorem debounce_one_call_latency_witness:
  "always_ready (time_ref \<lparr>prev_input = 0, stable_output = 0,
      time_ref = Some (\<lambda>n::nat. (1, Suc n))\<rparr>)
   \<and> fst (debounce_feed
        (Some \<lparr>prev_input = 0, stable_output = 0, time_ref = Some (\<lambda>n::nat. (1, Suc n))\<rparr>)
        [1, 1, 0, 0] 0) = [0, 1, 1, 0]
   \<and> fst (debounce_feed_v10
        (Some \<lparr>prev_input = 0, stable_output = 0, time_ref = Some (\<lambda>n::nat. (1, Suc n))\<rparr>)
        [1, 1, 0, 0] 0) = [0, 1, 1, 0]
   \<and> always_ready (time_ref \<lparr>prev_input = 0, stable_output = 0,
      time_ref = (None :: (nat \<Rightarrow> u8 \<times> nat) option)\<rparr>)
   \<and> fst (debounce_feed
        (Some \<lparr>prev_input = 0, stable_output = 0,
           time_ref = (None :: (nat \<Rightarrow> u8 \<times> nat) option)\<rparr>)
        [1, 0, 0, 7, 7] 0) = [0, 0, 0, 0, 1]"
  using debounce_one_call_latency
    [where s = "\<lparr>prev_input = 0, stable_output = 0, time_ref = Some (\<lambda>n::nat. (1, Suc n))\<rparr>"
       and f = "\<lambda>n::nat. (1, Suc n)" and xs = "[1, 1, 0, 0]" and w = 0]
    debounce_one_call_latency
    [where s = "\<lparr>prev_input = 0, stable_output = 0,
           time_ref = (None :: (nat \<Rightarrow> u8 \<times> nat) option)\<rparr>"
       and xs = "[1, 0, 0, 7, 7]" and w = 0]
  by (simp add: always_ready_def)

section \<open>Debounce: a timing function that is never ready\<close>

text \<open>
  C6. When the timing function of a debounce state always returns false, then for every
  raw input sequence of any length every \<open>debounce_update\<close> call returns the stable value
  the run started with, and \<open>stable_output\<close> still has that value after the run. Started
  from \<open>debounce_init\<close>, every call returns the normalised initial input. Version 1.0
  behaves the same.
\<close>

theorem debounce_predicate_always_false:
  assumes tr: "time_ref s = Some f" and nr: "\<forall>w. fst (f w) = 0"
  shows "fst (debounce_feed (Some s) xs w) = replicate (length xs) (stable_output s)
       \<and> map_option stable_output (fst (snd (debounce_feed (Some s) xs w))) = Some (stable_output s)
       \<and> fst (debounce_feed (debounce_init (Some s0) (Some f) x0) xs w) =
           replicate (length xs) (if x0 \<noteq> 0 then 1 else 0)
       \<and> fst (debounce_feed_v10 (Some s) xs w) = replicate (length xs) (stable_output s)
       \<and> map_option stable_output (fst (snd (debounce_feed_v10 (Some s) xs w))) =
           Some (stable_output s)"
proof -
  from debounce_feed_never [OF tr nr, of xs w]
  have a: "fst (debounce_feed (Some s) xs w) = replicate (length xs) (stable_output s)"
    and b: "map_option stable_output (fst (snd (debounce_feed (Some s) xs w))) =
              Some (stable_output s)"
    by auto
  let ?i = "\<lparr>prev_input = (if x0 \<noteq> 0 then 1 else 0), stable_output = (if x0 \<noteq> 0 then 1 else 0),
      time_ref = Some f\<rparr>"
  have i: "debounce_init (Some s0) (Some f) x0 = Some (s0\<lparr>prev_input := (if x0 \<noteq> 0 then 1 else 0),
      stable_output := (if x0 \<noteq> 0 then 1 else 0), time_ref := Some f\<rparr>)"
    by (simp add: debounce_init_def Let_def)
  have c: "fst (debounce_feed (debounce_init (Some s0) (Some f) x0) xs w) =
           replicate (length xs) (if x0 \<noteq> 0 then 1 else 0)"
    unfolding i using debounce_feed_never [OF _ nr, of "s0\<lparr>prev_input := (if x0 \<noteq> 0 then 1 else 0),
      stable_output := (if x0 \<noteq> 0 then 1 else 0), time_ref := Some f\<rparr>" xs w]
    by auto
  from tr nr have "never_ready_v10 (time_ref s)"
    by (simp add: never_ready_v10_def)
  from debounce_feed_v10_never [OF this, of xs w]
  have d: "fst (debounce_feed_v10 (Some s) xs w) = replicate (length xs) (stable_output s)"
    and e: "map_option stable_output (fst (snd (debounce_feed_v10 (Some s) xs w))) =
              Some (stable_output s)"
    by auto
  from a b c d e show ?thesis by simp
qed

theorem debounce_predicate_always_false_witness:
  "time_ref \<lparr>prev_input = 0, stable_output = 0, time_ref = Some (\<lambda>n::nat. (0, Suc n))\<rparr>
     = Some (\<lambda>n::nat. (0, Suc n))
   \<and> (\<forall>w::nat. fst (0::u8, Suc w) = 0)
   \<and> fst (debounce_feed
        (Some \<lparr>prev_input = 0, stable_output = 0, time_ref = Some (\<lambda>n::nat. (0, Suc n))\<rparr>)
        [1, 1, 1, 0, 0] 0) = [0, 0, 0, 0, 0]
   \<and> fst (debounce_feed_v10
        (Some \<lparr>prev_input = 0, stable_output = 0, time_ref = Some (\<lambda>n::nat. (0, Suc n))\<rparr>)
        [1, 1, 1, 0, 0] 0) = [0, 0, 0, 0, 0]"
  using debounce_predicate_always_false
    [of "\<lparr>prev_input = 0, stable_output = 0, time_ref = Some (\<lambda>n::nat. (0, Suc n))\<rparr>"
        "\<lambda>n::nat. (0, Suc n)" "[1, 1, 1, 0, 0]" 0]
  by simp


section \<open>Debounce version 1.0: a null timing function\<close>

text \<open>
  C10. In version 1.0, which has no fallback for a null \<open>time_ref\<close>, a state whose
  \<open>time_ref\<close> is null never gets a new \<open>stable_output\<close>: for every input sequence every
  \<open>debounce_update\<close> call returns the stable output the run started with, and after
  \<open>debounce_init\<close> of that version (which sets it to 0) every call returns 0. The absent
  function acts as "never ready", not as a pass-through.
\<close>

theorem debounce_v10_null_time_ref:
  assumes "time_ref s = None"
  shows "fst (debounce_feed_v10 (Some s) xs w) = replicate (length xs) (stable_output s)
       \<and> map_option stable_output (fst (snd (debounce_feed_v10 (Some s) xs w))) =
           Some (stable_output s)
       \<and> fst (debounce_feed_v10 (debounce_init_v10 (Some s0) None) xs w) = replicate (length xs) 0"
proof -
  from assms have "never_ready_v10 (time_ref s)"
    by (simp add: never_ready_v10_def)
  from debounce_feed_v10_never [OF this, of xs w]
  have a: "fst (debounce_feed_v10 (Some s) xs w) = replicate (length xs) (stable_output s)"
    and b: "map_option stable_output (fst (snd (debounce_feed_v10 (Some s) xs w))) =
              Some (stable_output s)"
    by auto
  have "never_ready_v10 (time_ref (s0\<lparr>prev_input := 0, stable_output := 0, time_ref := None\<rparr>))"
    by (simp add: never_ready_v10_def)
  from debounce_feed_v10_never [OF this, of xs w]
  have c: "fst (debounce_feed_v10 (debounce_init_v10 (Some s0) None) xs w) =
             replicate (length xs) 0"
    by (auto simp add: debounce_init_v10_def)
  from a b c show ?thesis by simp
qed


theorem debounce_v10_null_time_ref_witness:
  "time_ref \<lparr>prev_input = 0, stable_output = 0,
      time_ref = (None :: (nat \<Rightarrow> u8 \<times> nat) option)\<rparr> = None
   \<and> fst (debounce_feed_v10
        (Some \<lparr>prev_input = 0, stable_output = 0,
           time_ref = (None :: (nat \<Rightarrow> u8 \<times> nat) option)\<rparr>)
        [1, 1, 0, 0] 0) = [0, 0, 0, 0]"
  using debounce_v10_null_time_ref
    [where s = "\<lparr>prev_input = 0, stable_output = 0,
           time_ref = (None :: (nat \<Rightarrow> u8 \<times> nat) option)\<rparr>"
       and xs = "[1, 1, 0, 0]" and w = 0]
  by simp

section \<open>Edge detector: Any and Classify\<close>

text \<open>
  C4. For every detector pointer and every sample, \<open>edge_both\<close> ("Any") returns 1 exactly
  when \<open>edge_update\<close> ("Classify") on the same state, sample and world returns a
  classification other than \<open>EDGE_NONE\<close>, and 0 otherwise; the state and the world after
  \<open>edge_both\<close> are those after that one \<open>edge_update\<close> call, so \<open>prev\<close>, the counters and
  the callback advance once. The \<open>edge_both\<close> of the first iteration, which compares the
  normalised sample with \<open>prev\<close> directly, returns the same value and stores the same
  \<open>prev\<close> whenever the stored \<open>prev\<close> is 0 or 1 (as it is after initialisation).
\<close>

theorem edge_both_is_one_classify_step:
  "edge_both det x w =
     ((if fst (edge_update det x w) \<noteq> EDGE_NONE then 1 else 0), snd (edge_update det x w))
   \<and> (fst (edge_both det x w) = 1) = (fst (edge_update det x w) \<noteq> EDGE_NONE)
   \<and> (prev0 b = prev s \<and> (prev s = 0 \<or> prev s = 1) \<longrightarrow>
        fst (edge_both0 (Some b) x) = fst (edge_both (Some s) x w)
        \<and> map_option prev0 (snd (edge_both0 (Some b) x)) =
            map_option prev (fst (snd (edge_both (Some s) x w))))"
proof -
  have a: "edge_both det x w =
     ((if fst (edge_update det x w) \<noteq> EDGE_NONE then 1 else 0), snd (edge_update det x w))"
    by (cases det) (simp_all add: edge_both_def edge_update_def split: prod.splits)
  then have b: "(fst (edge_both det x w) = 1) = (fst (edge_update det x w) \<noteq> EDGE_NONE)"
    by simp
  have c: "prev0 b = prev s \<and> (prev s = 0 \<or> prev s = 1) \<longrightarrow>
        fst (edge_both0 (Some b) x) = fst (edge_both (Some s) x w)
        \<and> map_option prev0 (snd (edge_both0 (Some b) x)) =
            map_option prev (fst (snd (edge_both (Some s) x w)))"
    by (auto simp add: edge_both0_def edge_both_def edge_update_def norm01_def c_bool_def Let_def)
  from a b c show ?thesis by blast
qed

theorem edge_both_is_one_classify_step_witness:
  "prev0 \<lparr>prev0 = 0\<rparr> =
     prev \<lparr>prev = 0, rise_count = 4, fall_count = 4, on_edge = Some (\<lambda>t (n::nat). Suc n)\<rparr>
   \<and> edge_both
       (Some \<lparr>prev = 0, rise_count = 4, fall_count = 4, on_edge = Some (\<lambda>t (n::nat). Suc n)\<rparr>)
       1 0 =
       (1, Some \<lparr>prev = 1, rise_count = 5, fall_count = 4, on_edge = Some (\<lambda>t (n::nat). Suc n)\<rparr>,
        Suc 0)
   \<and> fst (edge_update
       (Some \<lparr>prev = 0, rise_count = 4, fall_count = 4, on_edge = Some (\<lambda>t (n::nat). Suc n)\<rparr>)
       1 0) = EDGE_RISING
   \<and> edge_both0 (Some \<lparr>prev0 = 0\<rparr>) 1 = (1, Some \<lparr>prev0 = 1\<rparr>)"
  using edge_both_is_one_classify_step
    [where det = "Some \<lparr>prev = 0, rise_count = 4, fall_count = 4,
                     on_edge = Some (\<lambda>t (n::nat). Suc n)\<rparr>"
       and s = "\<lparr>prev = 0, rise_count = 4, fall_count = 4, on_edge = Some (\<lambda>t (n::nat). Suc n)\<rparr>"
       and b = "\<lparr>prev0 = 0\<rparr>" and x = 1 and w = 0]
  by (simp add: edge_update_def edge_invoke_callback_def norm01_def edge_both0_def c_bool_def)

section \<open>Edge detector: the counters\<close>

lemma u32_le_inc: "(c::u32) \<noteq> - 1 \<Longrightarrow> c \<le> c + 1"
  by (meson inc_less_eq_triv_imp nle_le)

lemma edge_update_counters:
  "\<exists>s' w'. edge_update (Some s) x w =
      ((if prev s = 0 \<and> x \<noteq> 0 then EDGE_RISING
        else if prev s = 1 \<and> x = 0 then EDGE_FALLING else EDGE_NONE), Some s', w')
     \<and> rise_count s' = (if prev s = 0 \<and> x \<noteq> 0 then rise_count s + 1 else rise_count s)
     \<and> fall_count s' =
         (if \<not> (prev s = 0 \<and> x \<noteq> 0) \<and> prev s = 1 \<and> x = 0 then fall_count s + 1
          else fall_count s)"
  by (simp add: edge_update_def norm01_def Let_def)

text \<open>
  The claim C5 as stated ("no operation other than explicit Reset ever decreases either
  counter") fails for \<open>edge_init\<close>, which the header documents as "Initializes or
  re-initializes the detector" and which zeroes both counters: on a detector that has
  counted 5 rising and 3 falling edges it brings both back to 0.
\<close>

theorem edge_init_decreases_counters_counterexample:
  "edge_get_rise_count
     (Some \<lparr>prev = 1, rise_count = 5, fall_count = 3,
             on_edge = (None :: (EdgeType \<Rightarrow> unit \<Rightarrow> unit) option)\<rparr>) = 5
   \<and> edge_get_rise_count
       (edge_init (Some \<lparr>prev = 1, rise_count = 5, fall_count = 3,
             on_edge = (None :: (EdgeType \<Rightarrow> unit \<Rightarrow> unit) option)\<rparr>) 1) = 0
   \<and> edge_get_rise_count
       (edge_init (Some \<lparr>prev = 1, rise_count = 5, fall_count = 3,
             on_edge = (None :: (EdgeType \<Rightarrow> unit \<Rightarrow> unit) option)\<rparr>) 1)
     < edge_get_rise_count
       (Some \<lparr>prev = 1, rise_count = 5, fall_count = 3,
             on_edge = (None :: (EdgeType \<Rightarrow> unit \<Rightarrow> unit) option)\<rparr>)
   \<and> edge_get_fall_count
       (edge_init (Some \<lparr>prev = 1, rise_count = 5, fall_count = 3,
             on_edge = (None :: (EdgeType \<Rightarrow> unit \<Rightarrow> unit) option)\<rparr>) 1)
     < edge_get_fall_count
       (Some \<lparr>prev = 1, rise_count = 5, fall_count = 3,
             on_edge = (None :: (EdgeType \<Rightarrow> unit \<Rightarrow> unit) option)\<rparr>)"
  by (simp add: edge_init_def edge_get_rise_count_def edge_get_fall_count_def)

text \<open>
  C5, amended. For every detector state and sample, one \<open>edge_update\<close> step increases
  \<open>rise_count\<close> by exactly 1 (modulo \<open>2 ^ 32\<close>) if and only if the step classifies as
  Rising and leaves it unchanged otherwise, and symmetrically for \<open>fall_count\<close> and
  Falling. No operation other than \<open>edge_reset\<close> and \<open>edge_init\<close> ever decreases a
  counter, wrap-around excepted: after \<open>edge_update\<close> and after \<open>edge_both\<close> each counter
  is at least what it was unless it stood at the maximum \<open>2 ^ 32 - 1\<close>, and the accessors
  take the state read-only.
\<close>

theorem edge_counters_monotone:
  "\<exists>s' w'. edge_update (Some s) x w = (fst (edge_update (Some s) x w), Some s', w')
     \<and> (rise_count s' = rise_count s + 1) = (fst (edge_update (Some s) x w) = EDGE_RISING)
     \<and> (rise_count s' = rise_count s) = (fst (edge_update (Some s) x w) \<noteq> EDGE_RISING)
     \<and> (fall_count s' = fall_count s + 1) = (fst (edge_update (Some s) x w) = EDGE_FALLING)
     \<and> (fall_count s' = fall_count s) = (fst (edge_update (Some s) x w) \<noteq> EDGE_FALLING)
     \<and> (rise_count s = - 1 \<or> rise_count s \<le> rise_count s')
     \<and> (fall_count s = - 1 \<or> fall_count s \<le> fall_count s')
     \<and> fst (snd (edge_both (Some s) x w)) = Some s'"
proof -
  from edge_update_counters [of s x w]
  obtain s' w' where
    step: "edge_update (Some s) x w =
      ((if prev s = 0 \<and> x \<noteq> 0 then EDGE_RISING
        else if prev s = 1 \<and> x = 0 then EDGE_FALLING else EDGE_NONE), Some s', w')"
    and rc: "rise_count s' = (if prev s = 0 \<and> x \<noteq> 0 then rise_count s + 1 else rise_count s)"
    and fc: "fall_count s' =
         (if \<not> (prev s = 0 \<and> x \<noteq> 0) \<and> prev s = 1 \<and> x = 0 then fall_count s + 1
          else fall_count s)"
    by blast
  have r1: "(rise_count s' = rise_count s + 1) = (fst (edge_update (Some s) x w) = EDGE_RISING)"
    by (simp add: step rc)
  have r2: "(rise_count s' = rise_count s) = (fst (edge_update (Some s) x w) \<noteq> EDGE_RISING)"
    by (simp add: step rc)
  have f1: "(fall_count s' = fall_count s + 1) = (fst (edge_update (Some s) x w) = EDGE_FALLING)"
    by (simp add: step fc)
  have f2: "(fall_count s' = fall_count s) = (fst (edge_update (Some s) x w) \<noteq> EDGE_FALLING)"
    by (simp add: step fc)
  have r3: "rise_count s = - 1 \<or> rise_count s \<le> rise_count s'"
    using u32_le_inc [of "rise_count s"] by (auto simp add: rc)
  have f3: "fall_count s = - 1 \<or> fall_count s \<le> fall_count s'"
    using u32_le_inc [of "fall_count s"] by (auto simp add: fc)
  have b: "fst (snd (edge_both (Some s) x w)) = Some s'"
    by (simp add: edge_both_def step)
  have "edge_update (Some s) x w = (fst (edge_update (Some s) x w), Some s', w')"
    by (simp add: step)
  with r1 r2 f1 f2 r3 f3 b show ?thesis by blast
qed

theorem edge_counters_monotone_witness:
  "(\<exists>s' w'. edge_update (Some \<lparr>prev = 0, rise_count = - 1, fall_count = 7,
                on_edge = (None :: (EdgeType \<Rightarrow> unit \<Rightarrow> unit) option)\<rparr>) 1 () =
              (EDGE_RISING, Some s', w')
            \<and> rise_count s' = 0 \<and> fall_count s' = 7)
   \<and> (\<exists>s' w'. edge_update (Some \<lparr>prev = 1, rise_count = 2, fall_count = 7,
                on_edge = (None :: (EdgeType \<Rightarrow> unit \<Rightarrow> unit) option)\<rparr>) 0 () =
              (EDGE_FALLING, Some s', w')
            \<and> rise_count s' = 2 \<and> fall_count s' = 8)"
  using edge_counters_monotone
    [of "\<lparr>prev = 0, rise_count = - 1, fall_count = 7,
          on_edge = (None :: (EdgeType \<Rightarrow> unit \<Rightarrow> unit) option)\<rparr>" 1 "()"]
    edge_counters_monotone
    [of "\<lparr>prev = 1, rise_count = 2, fall_count = 7,
          on_edge = (None :: (EdgeType \<Rightarrow> unit \<Rightarrow> unit) option)\<rparr>" 0 "()"]
  by (simp add: edge_update_def edge_invoke_callback_def norm01_def)

section \<open>Edge detector: reset\<close>

text \<open>
  C7. For every detector state, \<open>edge_reset\<close> sets \<open>rise_count\<close> and \<open>fall_count\<close> to 0 and
  leaves \<open>prev\<close> and \<open>on_edge\<close> as they were, so that both accessors return 0 right after
  the reset, and the next \<open>edge_update\<close> is classified against the \<open>prev\<close> of before the
  reset: it returns the classification and leaves the world that the same call without
  the reset would, Rising from \<open>prev\<close> 0 on a nonzero sample, Falling from \<open>prev\<close> 1 on a
  zero sample, and the counters then count that edge from 0.
\<close>

theorem edge_reset_frame:
  "edge_reset (Some s) = Some (s\<lparr>rise_count := 0, fall_count := 0\<rparr>)
   \<and> map_option prev (edge_reset (Some s)) = Some (prev s)
   \<and> map_option on_edge (edge_reset (Some s)) = Some (on_edge s)
   \<and> edge_get_rise_count (edge_reset (Some s)) = 0
   \<and> edge_get_fall_count (edge_reset (Some s)) = 0
   \<and> fst (edge_update (edge_reset (Some s)) x w) = fst (edge_update (Some s) x w)
   \<and> snd (snd (edge_update (edge_reset (Some s)) x w)) = snd (snd (edge_update (Some s) x w))
   \<and> fst (edge_update (edge_reset (Some s)) x w) =
       (if prev s = 0 \<and> x \<noteq> 0 then EDGE_RISING
        else if prev s = 1 \<and> x = 0 then EDGE_FALLING else EDGE_NONE)
   \<and> edge_get_rise_count (fst (snd (edge_update (edge_reset (Some s)) x w))) =
       (if fst (edge_update (Some s) x w) = EDGE_RISING then 1 else 0)
   \<and> edge_get_fall_count (fst (snd (edge_update (edge_reset (Some s)) x w))) =
       (if fst (edge_update (Some s) x w) = EDGE_FALLING then 1 else 0)"
  by (simp add: edge_reset_def edge_get_rise_count_def edge_get_fall_count_def
      edge_update_def edge_invoke_callback_def norm01_def Let_def)

section \<open>Normalisation of the input\<close>

text \<open>
  C8. Every nonzero input is equivalent to 1: for every pointer and world,
  \<open>debounce_update\<close> (both versions), \<open>edge_update\<close>, \<open>edge_both\<close> and the three
  detectors of the first iteration return the same value and leave the same state and
  world on a nonzero input as on input 1, and the initialisers store the same state; in
  particular input 5 behaves as input 1. Input 0 behaves as 0: after a call with
  input 0 the stored previous sample is 0.
\<close>

theorem nonzero_input_is_one:
  assumes "x \<noteq> 0"
  shows "debounce_update d x w = debounce_update d 1 w
       \<and> debounce_update_v10 d x w = debounce_update_v10 d 1 w
       \<and> debounce_init d tr x = debounce_init d tr 1
       \<and> edge_update det x v = edge_update det 1 v
       \<and> edge_both det x v = edge_both det 1 v
       \<and> edge_init det x = edge_init det 1
       \<and> edge_rise det0 x = edge_rise det0 1
       \<and> edge_fall det0 x = edge_fall det0 1
       \<and> edge_both0 det0 x = edge_both0 det0 1
       \<and> edge_init0 det0 x = edge_init0 det0 1
       \<and> map_option prev_input (fst (snd (debounce_update (Some s) 0 w))) = Some 0
       \<and> map_option prev_input (fst (snd (debounce_update_v10 (Some s) 0 w))) = Some 0
       \<and> map_option prev (fst (snd (edge_update (Some e) 0 v))) = Some 0
       \<and> map_option prev (fst (snd (edge_both (Some e) 0 v))) = Some 0
       \<and> map_option prev0 (snd (edge_both0 (Some e0) 0)) = Some 0"
proof -
  have n: "norm01 x = norm01 1"
    using assms by (simp add: norm01_def)
  have d1: "debounce_update d x w = debounce_update d 1 w"
    using assms by (simp add: debounce_update_def)
  have d2: "debounce_update_v10 d x w = debounce_update_v10 d 1 w"
    using assms by (simp add: debounce_update_v10_def)
  have d3: "debounce_init d tr x = debounce_init d tr 1"
    using assms by (simp add: debounce_init_def)
  have e1: "edge_update det x v = edge_update det 1 v"
    by (simp only: edge_update_def n)
  have e2: "edge_both det x v = edge_both det 1 v"
    by (simp only: edge_both_def e1)
  have e3: "edge_init det x = edge_init det 1"
    by (simp only: edge_init_def n)
  have b1: "edge_rise det0 x = edge_rise det0 1"
    by (simp only: edge_rise_def n)
  have b2: "edge_fall det0 x = edge_fall det0 1"
    by (simp only: edge_fall_def n)
  have b3: "edge_both0 det0 x = edge_both0 det0 1"
    by (simp only: edge_both0_def n)
  have b4: "edge_init0 det0 x = edge_init0 det0 1"
    by (simp only: edge_init0_def n)
  have z1: "map_option prev_input (fst (snd (debounce_update (Some s) 0 w))) = Some 0"
    by (simp add: debounce_update_def debounce_time_ready_def Let_def split: prod.splits)
  have z2: "map_option prev_input (fst (snd (debounce_update_v10 (Some s) 0 w))) = Some 0"
    by (simp add: debounce_update_v10_def Let_def split: prod.splits option.splits)
  have z3: "map_option prev (fst (snd (edge_update (Some e) 0 v))) = Some 0"
    by (simp add: edge_update_def norm01_def Let_def)
  have z4: "map_option prev (fst (snd (edge_both (Some e) 0 v))) = Some 0"
    by (simp add: edge_both_def edge_update_def norm01_def Let_def)
  have z5: "map_option prev0 (snd (edge_both0 (Some e0) 0)) = Some 0"
    by (simp add: edge_both0_def norm01_def Let_def)
  from d1 d2 d3 e1 e2 e3 b1 b2 b3 b4 z1 z2 z3 z4 z5 show ?thesis by blast
qed

theorem nonzero_input_is_one_witness:
  "(5::u8) \<noteq> 0
   \<and> debounce_update
       (Some \<lparr>prev_input = 0, stable_output = 0, time_ref = Some (\<lambda>n::nat. (1, Suc n))\<rparr>) 5 0 =
     debounce_update
       (Some \<lparr>prev_input = 0, stable_output = 0, time_ref = Some (\<lambda>n::nat. (1, Suc n))\<rparr>) 1 0
   \<and> edge_update
       (Some \<lparr>prev = 0, rise_count = 0, fall_count = 0, on_edge = Some (\<lambda>t (n::nat). Suc n)\<rparr>)
       5 0 =
     (EDGE_RISING,
      Some \<lparr>prev = 1, rise_count = 1, fall_count = 0, on_edge = Some (\<lambda>t (n::nat). Suc n)\<rparr>,
      Suc 0)
   \<and> edge_update
       (Some \<lparr>prev = 0, rise_count = 0, fall_count = 0, on_edge = Some (\<lambda>t (n::nat). Suc n)\<rparr>)
       1 0 =
     (EDGE_RISING,
      Some \<lparr>prev = 1, rise_count = 1, fall_count = 0, on_edge = Some (\<lambda>t (n::nat). Suc n)\<rparr>,
      Suc 0)"
  using nonzero_input_is_one
    [where x = 5
       and d = "Some \<lparr>prev_input = 0, stable_output = 0,
                      time_ref = Some (\<lambda>n::nat. (1, Suc n))\<rparr>"
       and w = "0::nat"
       and det = "Some \<lparr>prev = 0, rise_count = 0, fall_count = 0,
                        on_edge = Some (\<lambda>t (n::nat). Suc n)\<rparr>"
       and v = "0::nat"]
  by (simp add: edge_update_def edge_invoke_callback_def norm01_def)

section \<open>Null instance pointers\<close>

text \<open>
  C9. Every operation of both components, in every version, that is called with a null
  instance pointer writes nothing and calls no callback: the pointer is still null and
  the world is unchanged. The operations that return an integer return 0, and
  \<open>edge_update\<close> returns \<open>EDGE_NONE\<close>.
\<close>

theorem null_instance_is_noop:
  "debounce_init None tr x = None
   \<and> debounce_update None x w = (0, None, w)
   \<and> debounce_init_v10 None tr = None
   \<and> debounce_update_v10 None x w = (0, None, w)
   \<and> edge_init None x = None
   \<and> edge_update None x v = (EDGE_NONE, None, v)
   \<and> edge_both None x v = (0, None, v)
   \<and> edge_reset None = None
   \<and> edge_get_rise_count None = 0
   \<and> edge_get_fall_count None = 0
   \<and> edge_init0 None x = None
   \<and> edge_rise None x = (0, None)
   \<and> edge_fall None x = (0, None)
   \<and> edge_both0 None x = (0, None)"
  by (simp add: debounce_init_def debounce_update_def debounce_init_v10_def
      debounce_update_v10_def edge_init_def edge_update_def edge_both_def edge_reset_def
      edge_get_rise_count_def edge_get_fall_count_def edge_init0_def edge_rise_def
      edge_fall_def edge_both0_def)

end
